theory Spec2Isabelle
  imports Main
begin

section \<open>Values of the converted feed\<close>

text \<open>
  \<^verbatim>\<open>xmltodict.parse\<close> turns an XML document into nested Python values: an element
  without attributes, children and text is \<^verbatim>\<open>None\<close>, an element with text only is a
  \<^verbatim>\<open>str\<close>, any other element is a \<^verbatim>\<open>dict\<close> (insertion ordered, modelled as an
  association list read with \<open>map_of\<close>), and a child tag that occurs more than once under
  one parent is a \<^verbatim>\<open>list\<close>.
\<close>

datatype xval =
    XNone
  | XStr string
  | XDict "(string \<times> xval) list"
  | XList "xval list"

type_synonym pydict = "(string \<times> xval) list"

text \<open>Python truth value of such a value, as \<^verbatim>\<open>or\<close> and \<^verbatim>\<open>if\<close> test it.\<close>

fun truthy :: "xval \<Rightarrow> bool" where
  "truthy XNone = False"
| "truthy (XStr s) = (s \<noteq> [])"
| "truthy (XDict d) = (d \<noteq> [])"
| "truthy (XList xs) = (xs \<noteq> [])"

text \<open>\<^verbatim>\<open>a or b\<close>: the left operand when it is truthy, the right one otherwise.\<close>

definition py_or :: "xval \<Rightarrow> xval \<Rightarrow> xval" where
  "py_or a b = (if truthy a then a else b)"

text \<open>The exceptions the module can meet.\<close>

datatype error =
    ExpatError        \<comment> \<open>raised by \<^verbatim>\<open>xmltodict.parse\<close> on text that is not XML\<close>
  | AttributeError    \<comment> \<open>\<^verbatim>\<open>.get\<close> on a value that is not a mapping\<close>
  | TypeError         \<comment> \<open>iterating \<^verbatim>\<open>None\<close>\<close>
  | ValidationError   \<comment> \<open>pydantic: a field value does not fit its declared type\<close>
  | HTTPError         \<comment> \<open>\<^verbatim>\<open>httpx.HTTPError\<close> and its subclasses\<close>
  | InvalidURL        \<comment> \<open>\<^verbatim>\<open>httpx.InvalidURL\<close>, not a subclass of \<^verbatim>\<open>HTTPError\<close>\<close>

definition bind_err :: "error + 'a \<Rightarrow> ('a \<Rightarrow> error + 'b) \<Rightarrow> error + 'b" where
  "bind_err m f = (case m of Inl e \<Rightarrow> Inl e | Inr x \<Rightarrow> f x)"

text \<open>\<^verbatim>\<open>d.get(k, default)\<close> on a mapping \<open>d\<close>.\<close>

definition dict_get :: "pydict \<Rightarrow> string \<Rightarrow> xval \<Rightarrow> xval" where
  "dict_get d k dflt = (case map_of d k of Some v \<Rightarrow> v | None \<Rightarrow> dflt)"

text \<open>
  \<^verbatim>\<open>v.get(k, default)\<close> on any value: only a mapping has the method, \<^verbatim>\<open>None\<close>, a
  string and a list raise \<^verbatim>\<open>AttributeError\<close>.
\<close>

fun py_get :: "xval \<Rightarrow> string \<Rightarrow> xval \<Rightarrow> error + xval" where
  "py_get (XDict d) k dflt = Inr (dict_get d k dflt)"
| "py_get XNone k dflt = Inl AttributeError"
| "py_get (XStr s) k dflt = Inl AttributeError"
| "py_get (XList xs) k dflt = Inl AttributeError"

text \<open>
  \<^verbatim>\<open>for it in v\<close>: a list gives its elements, a string its characters (each a string of
  length one), a mapping its keys, and \<^verbatim>\<open>None\<close> raises \<^verbatim>\<open>TypeError\<close>. A HOL string
  is a list of bytes, so a string with characters beyond ASCII gives more elements here
  than in Python; every element is a string in both, which is all the parser looks at.
\<close>

fun py_iter :: "xval \<Rightarrow> error + xval list" where
  "py_iter (XList xs) = Inr xs"
| "py_iter (XStr s) = Inr (map (\<lambda>c. XStr [c]) s)"
| "py_iter (XDict d) = Inr (map (\<lambda>kv. XStr (fst kv)) d)"
| "py_iter XNone = Inl TypeError"

section \<open>Dates\<close>

text \<open>
  \<^verbatim>\<open>datetime.date\<close> and \<^verbatim>\<open>datetime.datetime\<close>. Python keeps \<open>1 \<le> year \<le> 9999\<close>,
  \<open>1 \<le> month \<le> 12\<close> and \<open>1 \<le> day \<le> 31\<close>; \<open>utcoffset\<close> is the offset of an aware
  datetime in minutes, \<open>None\<close> for a naive one.
\<close>

record date =
  year :: nat
  month :: nat
  day :: nat

record datetime = date +
  hour :: nat
  minute :: nat
  second :: nat
  utcoffset :: "int option"

text \<open>\<^verbatim>\<open>datetime.date()\<close>: the calendar date, the other fields dropped.\<close>

definition date_of :: "datetime \<Rightarrow> date" where
  "date_of dt = \<lparr>year = year dt, month = month dt, day = day dt\<rparr>"

definition digit :: "nat \<Rightarrow> char" where
  "digit n = ''0123456789'' ! (n mod 10)"

text \<open>\<^verbatim>\<open>date.isoformat()\<close>, that is \<^verbatim>\<open>"%04d-%02d-%02d" % (year, month, day)\<close>.\<close>

definition isoformat :: "date \<Rightarrow> string" where
  "isoformat d =
     [digit (year d div 1000), digit (year d div 100), digit (year d div 10), digit (year d)]
     @ ''-'' @ [digit (month d div 10), digit (month d)]
     @ ''-'' @ [digit (day d div 10), digit (day d)]"

text \<open>
  \<^verbatim>\<open>dateutil.parser.parse\<close> is a library outside the module and is a parameter here:
  \<open>dp today s\<close> is \<open>Some dt\<close> when the string is parsed and \<open>None\<close> when the parser
  raises. The library fills the fields a string leaves out (a time without a date, a
  day without a year) from \<^verbatim>\<open>datetime.now()\<close> at midnight, so the parser reads the
  clock: \<open>today\<close> is the date of the call.
\<close>

type_synonym dateparser = "date \<Rightarrow> string \<Rightarrow> datetime option"

section \<open>The record and its normalisation\<close>

record JobItem =
  source :: string
  source_ref :: "string option"
  url :: "string option"
  title :: "string option"
  description_raw :: "string option"
  posted_date :: "string option"
  raw :: "pydict option"

text \<open>
  \<^verbatim>\<open>JobItem\<close> is a pydantic model: constructing it validates each argument against the
  declared field type. For \<^verbatim>\<open>Optional[str]\<close>, \<^verbatim>\<open>None\<close> and a string pass unchanged;
  a mapping or a list is rejected and the constructor raises \<^verbatim>\<open>ValidationError\<close>.
\<close>

fun optional_str :: "xval \<Rightarrow> error + string option" where
  "optional_str XNone = Inr None"
| "optional_str (XStr s) = Inr (Some s)"
| "optional_str (XDict d) = Inl ValidationError"
| "optional_str (XList xs) = Inl ValidationError"

text \<open>
  The constructor call of \<^verbatim>\<open>_parse_item\<close>. \<open>source\<close> is a string literal and
  \<open>posted_date\<close> is \<^verbatim>\<open>None\<close> or the string \<^verbatim>\<open>isoformat\<close> returned, so both always
  validate; \<open>raw\<close> is the item, a mapping whenever the call is reached.
\<close>

definition JobItem_init ::
  "string \<Rightarrow> xval \<Rightarrow> xval \<Rightarrow> xval \<Rightarrow> xval \<Rightarrow> string option \<Rightarrow> pydict \<Rightarrow> error + JobItem" where
  "JobItem_init src sref u t d p r =
     bind_err (optional_str sref) (\<lambda>sref'.
     bind_err (optional_str u) (\<lambda>u'.
     bind_err (optional_str t) (\<lambda>t'.
     bind_err (optional_str d) (\<lambda>d'.
       Inr \<lparr>source = src, source_ref = sref', url = u', title = t',
            description_raw = d', posted_date = p, raw = Some r\<rparr>))))"

text \<open>
  Lines 30 to 34: the date is parsed only when \<^verbatim>\<open>pubDate\<close> is truthy, and every
  exception of the parser (also the \<^verbatim>\<open>TypeError\<close> it raises on a value that is not a
  string) is caught and gives \<^verbatim>\<open>None\<close>.
\<close>

definition posted_date_of :: "dateparser \<Rightarrow> date \<Rightarrow> xval \<Rightarrow> string option" where
  "posted_date_of dp today pubDate =
     (if truthy pubDate then
        (case pubDate of
           XStr s \<Rightarrow> (case dp today s of
                        Some dt \<Rightarrow> Some (isoformat (date_of dt))
                      | None \<Rightarrow> None)
         | _ \<Rightarrow> None)
      else None)"

text \<open>\<^verbatim>\<open>_parse_item\<close> (an Isabelle name cannot start with an underscore).\<close>

fun parse_item :: "dateparser \<Rightarrow> date \<Rightarrow> xval \<Rightarrow> error + JobItem" where
  "parse_item dp today (XDict item) =
     (let title = dict_get item ''title'' XNone;
          link = dict_get item ''link'' XNone;
          desc = py_or (dict_get item ''description'' XNone) (XStr '''');
          pubDate = dict_get item ''pubDate'' XNone;
          posted = posted_date_of dp today pubDate;
          sref = py_or (dict_get item ''guid'' XNone) link
      in JobItem_init ''euraxess'' sref link title desc posted item)"
| "parse_item dp today XNone = Inl AttributeError"
| "parse_item dp today (XStr s) = Inl AttributeError"
| "parse_item dp today (XList xs) = Inl AttributeError"

section \<open>The feed parser\<close>

text \<open>
  \<^verbatim>\<open>xmltodict.parse\<close> is a parameter as well: \<open>xp rss_text\<close> is \<open>None\<close> when the
  library raises \<^verbatim>\<open>ExpatError\<close> (the text is not XML) and \<open>Some data\<close> otherwise.
\<close>

type_synonym xmlparser = "string \<Rightarrow> xval option"

text \<open>
  Line 49, \<^verbatim>\<open>data.get("rss", {}).get("channel", {}).get("item", [])\<close>, in two steps: the
  channel, then its \<^verbatim>\<open>item\<close> entry. A default is used only when the key is missing,
  not when the key is there with the value \<^verbatim>\<open>None\<close>.
\<close>

definition feed_channel :: "xval \<Rightarrow> error + xval" where
  "feed_channel data =
     bind_err (py_get data ''rss'' (XDict [])) (\<lambda>rss. py_get rss ''channel'' (XDict []))"

definition feed_items :: "xval \<Rightarrow> error + xval" where
  "feed_items data =
     bind_err (feed_channel data) (\<lambda>channel. py_get channel ''item'' (XList []))"

text \<open>Lines 50 and 51: \<^verbatim>\<open>if isinstance(items, dict): items = [items]\<close>.\<close>

fun wrap_dict :: "xval \<Rightarrow> xval" where
  "wrap_dict (XDict d) = XList [XDict d]"
| "wrap_dict v = v"

text \<open>
  The comprehension \<^verbatim>\<open>[_parse_item(it) for it in items]\<close> on the elements the
  iteration gives: the first item that raises ends it.
\<close>

fun parse_each :: "dateparser \<Rightarrow> date \<Rightarrow> xval list \<Rightarrow> error + JobItem list" where
  "parse_each dp today [] = Inr []"
| "parse_each dp today (it # its) =
     bind_err (parse_item dp today it) (\<lambda>r.
     bind_err (parse_each dp today its) (\<lambda>rs. Inr (r # rs)))"

text \<open>
  The body of \<^verbatim>\<open>parse_rss_text_to_items\<close>, the function under the decorator
  (\<^verbatim>\<open>parse_rss_text_to_items.__wrapped__\<close>): a parse with no memo table.
\<close>

definition parse_rss_text_to_items_wrapped ::
  "xmlparser \<Rightarrow> dateparser \<Rightarrow> date \<Rightarrow> string \<Rightarrow> error + JobItem list" where
  "parse_rss_text_to_items_wrapped xp dp today rss_text =
     (case xp rss_text of
        None \<Rightarrow> Inl ExpatError
      | Some data \<Rightarrow>
          bind_err (feed_items data) (\<lambda>items.
          bind_err (py_iter (wrap_dict items)) (\<lambda>its.
            parse_each dp today its)))"

text \<open>
  \<^verbatim>\<open>@lru_cache(maxsize=32)\<close>: the memo table is a list of (text, records) with the
  most recently used entry first. A hit returns the stored records and moves the entry
  to the front; a miss calls the function, stores the result in front and drops the
  least recently used entry beyond 32; a call that raises stores nothing.
\<close>

type_synonym cache = "(string \<times> JobItem list) list"

definition maxsize :: nat where
  "maxsize = 32"

definition parse_rss_text_to_items ::
  "xmlparser \<Rightarrow> dateparser \<Rightarrow> cache \<Rightarrow> date \<Rightarrow> string \<Rightarrow> (error + JobItem list) \<times> cache" where
  "parse_rss_text_to_items xp dp c today rss_text =
     (case map_of c rss_text of
        Some v \<Rightarrow> (Inr v, (rss_text, v) # filter (\<lambda>kv. fst kv \<noteq> rss_text) c)
      | None \<Rightarrow>
          (case parse_rss_text_to_items_wrapped xp dp today rss_text of
             Inl e \<Rightarrow> (Inl e, c)
           | Inr v \<Rightarrow> (Inr v, take maxsize ((rss_text, v) # c))))"

text \<open>
  A run of calls on one memo table, each with the date of the call and its text; the
  results in call order.
\<close>

fun run_calls ::
  "xmlparser \<Rightarrow> dateparser \<Rightarrow> cache \<Rightarrow> (date \<times> string) list \<Rightarrow> (error + JobItem list) list" where
  "run_calls xp dp c [] = []"
| "run_calls xp dp c (call # rest) =
     (let rc = parse_rss_text_to_items xp dp c (fst call) (snd call)
      in fst rc # run_calls xp dp (snd rc) rest)"


text \<open>
  A field a record takes as \<^verbatim>\<open>Optional[str]\<close> is plain in a mapping when its key is
  missing or its value is \<^verbatim>\<open>None\<close> or a string; an item is plain when it is a mapping
  whose \<open>title\<close>, \<open>link\<close>, \<open>description\<close> and \<open>guid\<close> are.
\<close>

fun plain :: "xval \<Rightarrow> bool" where
  "plain XNone = True"
| "plain (XStr s) = True"
| "plain (XDict d) = False"
| "plain (XList xs) = False"


text \<open>The value of an \<^verbatim>\<open>Optional[str]\<close> field as a Python value.\<close>

fun opt_val :: "string option \<Rightarrow> xval" where
  "opt_val None = XNone"
| "opt_val (Some s) = XStr s"

section \<open>The service\<close>










text \<open>\<^verbatim>\<open>i.dict()\<close>: the record as a mapping.\<close>

definition JobItem_dict :: "JobItem \<Rightarrow> xval" where
  "JobItem_dict i = XDict
     [(''source'', XStr (source i)),
      (''source_ref'', opt_val (source_ref i)),
      (''url'', opt_val (url i)),
      (''title'', opt_val (title i)),
      (''description_raw'', opt_val (description_raw i)),
      (''posted_date'', opt_val (posted_date i)),
      (''raw'', (case raw i of None \<Rightarrow> XNone | Some d \<Rightarrow> XDict d))]"




section \<open>Concrete inputs\<close>

text \<open>
  The examples below need the two libraries at a few inputs. \<open>xp_demo\<close> gives, for each
  of the feed texts listed, the value \<^verbatim>\<open>xmltodict.parse\<close> returns on it, and \<open>None\<close>
  (not XML) elsewhere; \<open>dp_demo\<close> gives the answers of \<^verbatim>\<open>dateutil.parser.parse\<close> on a
  complete RFC 822 date and on a time of day without a date, which the library
  completes with the date of the call, and fails elsewhere.
\<close>

definition day1 :: date where
  "day1 = \<lparr>year = 2025, month = 11, day = 3\<rparr>"

definition day2 :: date where
  "day2 = \<lparr>year = 2025, month = 11, day = 4\<rparr>"

definition dp_demo :: dateparser where
  "dp_demo today s =
     (if s = ''Mon, 03 Nov 2025 10:00:00 GMT'' then
        Some \<lparr>year = 2025, month = 11, day = 3,
              hour = 10, minute = 0, second = 0, utcoffset = Some 0\<rparr>
      else if s = ''12:00'' then
        Some \<lparr>year = year today, month = month today, day = day today,
              hour = 12, minute = 0, second = 0, utcoffset = None\<rparr>
      else None)"

definition item_a :: pydict where
  "item_a = [(''title'', XStr ''A''), (''link'', XStr ''http://e/a''), (''guid'', XStr ''a-1''),
             (''pubDate'', XStr ''Mon, 03 Nov 2025 10:00:00 GMT'')]"

definition item_b :: pydict where
  "item_b = [(''title'', XStr ''B''), (''link'', XStr ''http://e/b'')]"

definition item_guid_attr :: pydict where
  "item_guid_attr =
     [(''title'', XStr ''A''),
      (''guid'', XDict [(''@isPermaLink'', XStr ''false''), (''#text'', XStr ''42'')])]"

definition feed_of :: "pydict \<Rightarrow> xval" where
  "feed_of channel = XDict [(''rss'', XDict [(''channel'', XDict channel)])]"

definition feed_empty :: string where
  "feed_empty = ''<rss><channel><title>Jobs</title></channel></rss>''"

definition feed_one :: string where
  "feed_one = ''<rss><channel><item><title>B</title><link>http://e/b</link></item></channel></rss>''"

definition feed_two :: string where
  "feed_two = ''<rss><channel><item><title>A</title><link>http://e/a</link><guid>a-1</guid>''
     @ ''<pubDate>Mon, 03 Nov 2025 10:00:00 GMT</pubDate></item>''
     @ ''<item><title>B</title><link>http://e/b</link></item></channel></rss>''"

definition feed_five :: string where
  "feed_five = ''<rss><channel><item><title>1</title></item><item><title>2</title></item>''
     @ ''<item><title>3</title></item><item><title>4</title></item>''
     @ ''<item><title>5</title></item></channel></rss>''"

definition feed_guid_attr :: string where
  "feed_guid_attr = ''<rss><channel><item><title>A</title><guid isPermaLink=''
     @ [CHR 0x22] @ ''false'' @ [CHR 0x22] @ ''>42</guid></item></channel></rss>''"

definition feed_markup :: string where
  "feed_markup =
     ''<rss><channel><item><description><p>Hi</p></description></item></channel></rss>''"

definition feed_clock :: string where
  "feed_clock = ''<rss><channel><item><pubDate>12:00</pubDate></item></channel></rss>''"

definition xp_demo :: xmlparser where
  "xp_demo t =
     (if t = feed_empty then Some (feed_of [(''title'', XStr ''Jobs'')])
      else if t = feed_one then Some (feed_of [(''item'', XDict item_b)])
      else if t = feed_two then Some (feed_of [(''item'', XList [XDict item_a, XDict item_b])])
      else if t = feed_five then
        Some (feed_of [(''item'', XList [XDict [(''title'', XStr ''1'')],
                                         XDict [(''title'', XStr ''2'')],
                                         XDict [(''title'', XStr ''3'')],
                                         XDict [(''title'', XStr ''4'')],
                                         XDict [(''title'', XStr ''5'')]])])
      else if t = feed_guid_attr then Some (feed_of [(''item'', XDict item_guid_attr)])
      else if t = feed_markup then
        Some (feed_of [(''item'', XDict [(''description'', XDict [(''p'', XStr ''Hi'')])])])
      else if t = feed_clock then
        Some (feed_of [(''item'', XDict [(''pubDate'', XStr ''12:00'')])])
      else None)"





text \<open>The records of \<open>item_a\<close> and \<open>item_b\<close>, and an item with none of the five fields.\<close>

definition job_a :: JobItem where
  "job_a = \<lparr>source = ''euraxess'', source_ref = Some ''a-1'', url = Some ''http://e/a'',
            title = Some ''A'', description_raw = Some '''', posted_date = Some ''2025-11-03'',
            raw = Some item_a\<rparr>"

definition job_b :: JobItem where
  "job_b = \<lparr>source = ''euraxess'', source_ref = Some ''http://e/b'', url = Some ''http://e/b'',
            title = Some ''B'', description_raw = Some '''', posted_date = None,
            raw = Some item_b\<rparr>"

definition item_bare :: pydict where
  "item_bare = [(''category'', XStr ''physics'')]"

definition job_bare :: JobItem where
  "job_bare = \<lparr>source = ''euraxess'', source_ref = None, url = None, title = None,
               description_raw = Some '''', posted_date = None, raw = Some item_bare\<rparr>"

text \<open>The record of the item of \<open>feed_clock\<close> when it is parsed on the day \<open>d\<close>.\<close>

definition job_clock :: "date \<Rightarrow> JobItem" where
  "job_clock d = \<lparr>source = ''euraxess'', source_ref = None, url = None, title = None,
                  description_raw = Some '''', posted_date = Some (isoformat d),
                  raw = Some [(''pubDate'', XStr ''12:00'')]\<rparr>"


section \<open>Basic facts\<close>

lemma bind_err_Inl [simp]: "bind_err (Inl e) f = Inl e"
  by (simp add: bind_err_def)

lemma bind_err_Inr [simp]: "bind_err (Inr x) f = f x"
  by (simp add: bind_err_def)

lemma bind_err_eq_Inr: "bind_err m f = Inr y \<longleftrightarrow> (\<exists>x. m = Inr x \<and> f x = Inr y)"
  by (cases m) simp_all

lemma optional_str_eq_Inr: "optional_str v = Inr s \<longleftrightarrow> v = opt_val s"
  by (cases v; cases s) auto

lemma plain_opt_val: "plain v \<Longrightarrow> \<exists>s. v = opt_val s"
proof (cases v)
  case XNone
  then have "v = opt_val None" by simp
  then show ?thesis ..
next
  case (XStr s)
  then have "v = opt_val (Some s)" by simp
  then show ?thesis ..
qed simp_all


lemma JobItem_init_eq_Inr:
  "JobItem_init src sref u t d p r = Inr j \<longleftrightarrow>
     (\<exists>a b c e. sref = opt_val a \<and> u = opt_val b \<and> t = opt_val c \<and> d = opt_val e \<and>
        j = \<lparr>source = src, source_ref = a, url = b, title = c,
             description_raw = e, posted_date = p, raw = Some r\<rparr>)"
  unfolding JobItem_init_def bind_err_eq_Inr optional_str_eq_Inr by auto

text \<open>What a record that \<open>parse_item\<close> returns holds, field by field.\<close>

lemma parse_item_fields:
  assumes "parse_item dp today it = Inr j"
  shows "\<exists>item. it = XDict item \<and> source j = ''euraxess'' \<and> raw j = Some item \<and>
     opt_val (source_ref j) =
       py_or (dict_get item ''guid'' XNone) (dict_get item ''link'' XNone) \<and>
     opt_val (url j) = dict_get item ''link'' XNone \<and>
     opt_val (title j) = dict_get item ''title'' XNone \<and>
     opt_val (description_raw j) = py_or (dict_get item ''description'' XNone) (XStr '''') \<and>
     posted_date j = posted_date_of dp today (dict_get item ''pubDate'' XNone)"
proof (cases it)
  case (XDict item)
  with assms have "JobItem_init ''euraxess''
      (py_or (dict_get item ''guid'' XNone) (dict_get item ''link'' XNone))
      (dict_get item ''link'' XNone) (dict_get item ''title'' XNone)
      (py_or (dict_get item ''description'' XNone) (XStr ''''))
      (posted_date_of dp today (dict_get item ''pubDate'' XNone)) item = Inr j"
    by (simp add: Let_def)
  then obtain a b c e where
    "py_or (dict_get item ''guid'' XNone) (dict_get item ''link'' XNone) = opt_val a"
    "dict_get item ''link'' XNone = opt_val b"
    "dict_get item ''title'' XNone = opt_val c"
    "py_or (dict_get item ''description'' XNone) (XStr '''') = opt_val e"
    "j = \<lparr>source = ''euraxess'', source_ref = a, url = b, title = c, description_raw = e,
          posted_date = posted_date_of dp today (dict_get item ''pubDate'' XNone),
          raw = Some item\<rparr>"
    unfolding JobItem_init_eq_Inr by blast
  with XDict show ?thesis by simp
qed (use assms in simp_all)







section \<open>The concrete inputs evaluated\<close>

lemma parse_item_a: "parse_item dp_demo today (XDict item_a) = Inr job_a"
  by (simp add: item_a_def job_a_def dp_demo_def JobItem_init_def py_or_def dict_get_def
      posted_date_of_def isoformat_def digit_def date_of_def)

lemma parse_item_b: "parse_item dp_demo today (XDict item_b) = Inr job_b"
  by (simp add: item_b_def job_b_def JobItem_init_def py_or_def dict_get_def
      posted_date_of_def)

lemma parse_item_bare: "parse_item dp_demo today (XDict item_bare) = Inr job_bare"
  by (simp add: item_bare_def job_bare_def JobItem_init_def py_or_def dict_get_def
      posted_date_of_def)

lemma parse_item_clock:
  "parse_item dp_demo today (XDict [(''pubDate'', XStr ''12:00'')]) = Inr (job_clock today)"
  by (simp add: job_clock_def dp_demo_def JobItem_init_def py_or_def dict_get_def
      posted_date_of_def date_of_def isoformat_def)

lemma feed_channel_feed_of: "feed_channel (feed_of c) = Inr (XDict c)"
  by (simp add: feed_channel_def feed_of_def dict_get_def)

lemma feed_items_feed_of: "feed_items (feed_of c) = Inr (dict_get c ''item'' (XList []))"
  by (simp add: feed_items_def feed_channel_feed_of)


lemma xp_demo_one: "xp_demo feed_one = Some (feed_of [(''item'', XDict item_b)])"
  by (simp add: xp_demo_def feed_one_def feed_empty_def)

lemma xp_demo_two:
  "xp_demo feed_two = Some (feed_of [(''item'', XList [XDict item_a, XDict item_b])])"
  by (simp add: xp_demo_def feed_two_def feed_one_def feed_empty_def)




lemma xp_demo_clock:
  "xp_demo feed_clock = Some (feed_of [(''item'', XDict [(''pubDate'', XStr ''12:00'')])])"
  by (simp add: xp_demo_def feed_clock_def feed_markup_def feed_guid_attr_def feed_five_def
      feed_two_def feed_one_def feed_empty_def)

lemma wrapped_feed_of:
  assumes "xp t = Some (feed_of c)"
  shows "parse_rss_text_to_items_wrapped xp dp today t =
     bind_err (py_iter (wrap_dict (dict_get c ''item'' (XList [])))) (parse_each dp today)"
  using assms by (simp add: parse_rss_text_to_items_wrapped_def feed_items_feed_of)

lemma wrapped_two: "parse_rss_text_to_items_wrapped xp_demo dp_demo today feed_two = Inr [job_a, job_b]"
  by (simp add: wrapped_feed_of [of xp_demo feed_two, OF xp_demo_two] dict_get_def parse_item_a parse_item_b
      del: parse_item.simps)

lemma wrapped_one: "parse_rss_text_to_items_wrapped xp_demo dp_demo today feed_one = Inr [job_b]"
  by (simp add: wrapped_feed_of [of xp_demo feed_one, OF xp_demo_one] dict_get_def parse_item_b
      del: parse_item.simps)


lemma wrapped_clock:
  "parse_rss_text_to_items_wrapped xp_demo dp_demo today feed_clock = Inr [job_clock today]"
  by (simp add: wrapped_feed_of [of xp_demo feed_clock, OF xp_demo_clock] dict_get_def parse_item_clock
      del: parse_item.simps)

section \<open>Identifier, date and record policies\<close>

text \<open>
  Claim C4. The identifier policy of line 35: a record made from an item has the item's
  \<open>guid\<close> as \<open>source_ref\<close> when the \<open>guid\<close> is present and not empty; with no or an
  empty \<open>guid\<close> it has the item's \<open>link\<close>; with neither, \<open>source_ref\<close> is absent.
\<close>

theorem source_ref_policy:
  assumes "parse_item dp today (XDict item) = Inr r"
  shows "(\<forall>g. map_of item ''guid'' = Some g \<and> truthy g \<longrightarrow> opt_val (source_ref r) = g) \<and>
     (\<forall>l. \<not> truthy (dict_get item ''guid'' XNone) \<and> map_of item ''link'' = Some l
          \<longrightarrow> opt_val (source_ref r) = l) \<and>
     (\<not> truthy (dict_get item ''guid'' XNone) \<and> map_of item ''link'' = None
          \<longrightarrow> source_ref r = None)"
proof -
  from parse_item_fields [OF assms]
  have sr: "opt_val (source_ref r) =
      py_or (dict_get item ''guid'' XNone) (dict_get item ''link'' XNone)"
    by simp
  have none: "source_ref r = None" if "opt_val (source_ref r) = XNone"
    using that by (cases "source_ref r") simp_all
  show ?thesis
    using sr none by (auto simp: py_or_def dict_get_def)
qed

theorem source_ref_policy_witness:
  "(parse_item dp_demo day1 (XDict item_a) = Inr job_a \<and>
      map_of item_a ''guid'' = Some (XStr ''a-1'') \<and> truthy (XStr ''a-1'') \<and>
      opt_val (source_ref job_a) = XStr ''a-1'') \<and>
   (parse_item dp_demo day1 (XDict item_b) = Inr job_b \<and>
      \<not> truthy (dict_get item_b ''guid'' XNone) \<and>
      map_of item_b ''link'' = Some (XStr ''http://e/b'') \<and>
      opt_val (source_ref job_b) = XStr ''http://e/b'') \<and>
   (parse_item dp_demo day1 (XDict item_bare) = Inr job_bare \<and>
      \<not> truthy (dict_get item_bare ''guid'' XNone) \<and> map_of item_bare ''link'' = None \<and>
      source_ref job_bare = None)"
proof -
  have lk: "map_of item_a ''guid'' = Some (XStr ''a-1'')"
    "dict_get item_b ''guid'' XNone = XNone" "map_of item_b ''link'' = Some (XStr ''http://e/b'')"
    "dict_get item_bare ''guid'' XNone = XNone" "map_of item_bare ''link'' = None"
    by (simp_all add: item_a_def item_b_def item_bare_def dict_get_def)
  show ?thesis
    using source_ref_policy [OF parse_item_a [of day1]]
      source_ref_policy [OF parse_item_b [of day1]]
      source_ref_policy [OF parse_item_bare [of day1]]
    by (simp add: parse_item_a parse_item_b parse_item_bare lk del: parse_item.simps)
qed

lemma isl_bind_err: "isl (bind_err m f) \<longleftrightarrow> isl m \<or> (\<exists>x. m = Inr x \<and> isl (f x))"
  by (cases m) simp_all

lemma isl_optional_str: "isl (optional_str v) \<longleftrightarrow> \<not> plain v"
  by (cases v) simp_all

lemma isl_JobItem_init:
  "isl (JobItem_init src sref u t d p r) \<longleftrightarrow> \<not> (plain sref \<and> plain u \<and> plain t \<and> plain d)"
  unfolding JobItem_init_def isl_bind_err isl_optional_str
  by (auto simp: optional_str_eq_Inr intro: plain_opt_val)

text \<open>Whether an item is rejected is decided by four of its fields, not by the date.\<close>

lemma isl_parse_item:
  "isl (parse_item dp today (XDict item)) \<longleftrightarrow>
     \<not> (plain (py_or (dict_get item ''guid'' XNone) (dict_get item ''link'' XNone)) \<and>
        plain (dict_get item ''link'' XNone) \<and> plain (dict_get item ''title'' XNone) \<and>
        plain (py_or (dict_get item ''description'' XNone) (XStr '''')))"
  by (simp add: Let_def isl_JobItem_init)

lemma length_isoformat: "length (isoformat d) = 10"
  by (simp add: isoformat_def)

text \<open>
  Claim C5. The date policy of lines 30 to 34: when \<open>pubDate\<close> is a string the date
  parser accepts, \<open>posted_date\<close> is the ISO form of the calendar date of the result, ten
  characters with no time of day; when \<open>pubDate\<close> is missing, empty, not a string or not
  accepted by the parser, \<open>posted_date\<close> is absent; and whether an item is normalised or
  rejected does not depend on its \<open>pubDate\<close> nor on the date parser.
\<close>

theorem posted_date_policy:
  "(parse_item dp today (XDict item) = Inr r \<and> dict_get item ''pubDate'' XNone = XStr s \<and>
      s \<noteq> [] \<and> dp today s = Some dt
      \<longrightarrow> posted_date r = Some (isoformat (date_of dt)) \<and>
          length (isoformat (date_of dt)) = 10 \<and>
          isoformat (date_of dt) = isoformat \<lparr>year = year dt, month = month dt, day = day dt\<rparr>) \<and>
   (parse_item dp today (XDict item) = Inr r \<and>
      (\<not> truthy (dict_get item ''pubDate'' XNone) \<or>
       (\<forall>s'. dict_get item ''pubDate'' XNone = XStr s' \<longrightarrow> dp today s' = None))
      \<longrightarrow> posted_date r = None) \<and>
   isl (parse_item dp' today' (XDict ((''pubDate'', v) # item))) =
     isl (parse_item dp today (XDict item))"
proof (intro conjI impI)
  assume a: "parse_item dp today (XDict item) = Inr r \<and>
    dict_get item ''pubDate'' XNone = XStr s \<and> s \<noteq> [] \<and> dp today s = Some dt"
  from parse_item_fields [of dp today "XDict item" r] a
  have "posted_date r = posted_date_of dp today (XStr s)" by auto
  with a show "posted_date r = Some (isoformat (date_of dt))"
    by (simp add: posted_date_of_def)
  show "length (isoformat (date_of dt)) = 10" by (rule length_isoformat)
  show "isoformat (date_of dt) = isoformat \<lparr>year = year dt, month = month dt, day = day dt\<rparr>"
    by (simp add: date_of_def)
next
  assume a: "parse_item dp today (XDict item) = Inr r \<and>
    (\<not> truthy (dict_get item ''pubDate'' XNone) \<or>
     (\<forall>s'. dict_get item ''pubDate'' XNone = XStr s' \<longrightarrow> dp today s' = None))"
  from parse_item_fields [of dp today "XDict item" r] a
  have "posted_date r = posted_date_of dp today (dict_get item ''pubDate'' XNone)" by auto
  with a show "posted_date r = None"
    by (cases "dict_get item ''pubDate'' XNone") (auto simp: posted_date_of_def)
next
  show "isl (parse_item dp' today' (XDict ((''pubDate'', v) # item))) =
     isl (parse_item dp today (XDict item))"
    unfolding isl_parse_item by (simp add: dict_get_def)
qed

theorem posted_date_policy_witness:
  "(parse_item dp_demo day1 (XDict item_a) = Inr job_a \<and>
      dict_get item_a ''pubDate'' XNone = XStr ''Mon, 03 Nov 2025 10:00:00 GMT'' \<and>
      dp_demo day1 ''Mon, 03 Nov 2025 10:00:00 GMT'' =
        Some \<lparr>year = 2025, month = 11, day = 3,
              hour = 10, minute = 0, second = 0, utcoffset = Some 0\<rparr> \<and>
      posted_date job_a = Some ''2025-11-03'') \<and>
   (parse_item dp_demo day1 (XDict item_b) = Inr job_b \<and>
      \<not> truthy (dict_get item_b ''pubDate'' XNone) \<and> posted_date job_b = None) \<and>
   (parse_item dp_demo day1 (XDict [(''pubDate'', XStr ''soon'')]) =
        Inr (job_bare\<lparr>raw := Some [(''pubDate'', XStr ''soon'')]\<rparr>) \<and>
      dp_demo day1 ''soon'' = None \<and>
      posted_date (job_bare\<lparr>raw := Some [(''pubDate'', XStr ''soon'')]\<rparr>) = None)"
  using posted_date_policy [of dp_demo day1 item_a job_a "''Mon, 03 Nov 2025 10:00:00 GMT''"
      "\<lparr>year = 2025, month = 11, day = 3, hour = 10, minute = 0, second = 0,
        utcoffset = Some 0\<rparr>"]
    posted_date_policy [of dp_demo day1 item_b job_b]
    posted_date_policy [of dp_demo day1 "[(''pubDate'', XStr ''soon'')]"
      "job_bare\<lparr>raw := Some [(''pubDate'', XStr ''soon'')]\<rparr>"]
  by (simp add: item_a_def item_b_def job_a_def job_b_def job_bare_def dp_demo_def
      JobItem_init_def py_or_def dict_get_def posted_date_of_def isoformat_def digit_def
      date_of_def)




section \<open>Records of the parser and of the memo table\<close>




text \<open>
  One call on the memo table keeps any property \<open>P\<close> of the stored entries that fresh
  results have, and returns either a fresh failure or records with \<open>P\<close>.
\<close>

lemma memo_step:
  assumes inv: "\<forall>kv\<in>set c. P (fst kv) (snd kv)"
    and fresh: "\<And>v. parse_rss_text_to_items_wrapped xp dp today t = Inr v \<Longrightarrow> P t v"
  shows "(\<forall>kv\<in>set (snd (parse_rss_text_to_items xp dp c today t)). P (fst kv) (snd kv)) \<and>
     (case fst (parse_rss_text_to_items xp dp c today t) of
        Inl e \<Rightarrow> parse_rss_text_to_items_wrapped xp dp today t = Inl e \<and> map_of c t = None
      | Inr v \<Rightarrow> P t v)"
proof (cases "map_of c t")
  case (Some v)
  then have "(t, v) \<in> set c" by (rule map_of_SomeD)
  with inv have "P t v" by force
  with Some inv show ?thesis by (auto simp: parse_rss_text_to_items_def)
next
  case None
  show ?thesis
  proof (cases "parse_rss_text_to_items_wrapped xp dp today t")
    case (Inl e)
    with None inv show ?thesis by (simp add: parse_rss_text_to_items_def)
  next
    case (Inr v)
    then have "P t v" by (rule fresh)
    moreover have "\<forall>kv\<in>set (take maxsize ((t, v) # c)). P (fst kv) (snd kv)"
    proof
      fix kv assume "kv \<in> set (take maxsize ((t, v) # c))"
      then have "kv \<in> set ((t, v) # c)" by (rule in_set_takeD)
      with \<open>P t v\<close> inv show "P (fst kv) (snd kv)" by auto
    qed
    ultimately show ?thesis using None Inr by (simp add: parse_rss_text_to_items_def)
  qed
qed






section \<open>The page fetch\<close>




section \<open>The listing\<close>



text \<open>\<^verbatim>\<open>i.dict()\<close> loses nothing: the mapping determines the record.\<close>

lemma opt_val_inject: "opt_val a = opt_val b \<Longrightarrow> a = b"
  by (cases a; cases b) simp_all

lemma JobItem_dict_inject: "JobItem_dict a = JobItem_dict b \<Longrightarrow> a = b"
proof -
  assume eq: "JobItem_dict a = JobItem_dict b"
  have r: "x = y" if "(case x of None \<Rightarrow> XNone | Some d \<Rightarrow> XDict d) =
      (case y of None \<Rightarrow> XNone | Some d \<Rightarrow> XDict d)" for x y :: "pydict option"
    using that by (cases x; cases y) simp_all
  from eq have "source a = source b" "source_ref a = source_ref b" "url a = url b"
    "title a = title b" "description_raw a = description_raw b"
    "posted_date a = posted_date b" "raw a = raw b"
    by (auto simp: JobItem_dict_def dest: opt_val_inject r)
  then show "a = b" by simp
qed





section \<open>Count, order and failures of the feed parser\<close>















section \<open>The memo table\<close>

lemma run_calls_fresh:
  assumes "\<forall>kv\<in>set c. \<forall>d. parse_rss_text_to_items_wrapped xp dp d (fst kv) = Inr (snd kv)"
    and "\<forall>call\<in>set calls. \<forall>d. parse_rss_text_to_items_wrapped xp dp d (snd call) =
           parse_rss_text_to_items_wrapped xp dp (fst call) (snd call)"
  shows "run_calls xp dp c calls =
     map (\<lambda>call. parse_rss_text_to_items_wrapped xp dp (fst call) (snd call)) calls"
  using assms
proof (induction calls arbitrary: c)
  case Nil
  show ?case by simp
next
  case (Cons call rest)
  let ?rc = "parse_rss_text_to_items xp dp c (fst call) (snd call)"
  let ?fresh = "parse_rss_text_to_items_wrapped xp dp (fst call) (snd call)"
  have mem: "call \<in> set (call # rest)" by simp
  have stable: "parse_rss_text_to_items_wrapped xp dp d (snd call) = ?fresh" for d
    using bspec [OF Cons.prems(2) mem] by (rule spec)
  have rest: "\<forall>x\<in>set rest. \<forall>d. parse_rss_text_to_items_wrapped xp dp d (snd x) =
      parse_rss_text_to_items_wrapped xp dp (fst x) (snd x)"
  proof
    fix x assume "x \<in> set rest"
    then have "x \<in> set (call # rest)" by simp
    then show "\<forall>d. parse_rss_text_to_items_wrapped xp dp d (snd x) =
        parse_rss_text_to_items_wrapped xp dp (fst x) (snd x)"
      by (rule bspec [OF Cons.prems(2)])
  qed
  have fresh: "\<forall>d. parse_rss_text_to_items_wrapped xp dp d (snd call) = Inr v"
    if "?fresh = Inr v" for v
  proof
    fix d
    show "parse_rss_text_to_items_wrapped xp dp d (snd call) = Inr v"
      by (simp only: stable [of d] that)
  qed
  have step: "(\<forall>kv\<in>set (snd ?rc).
        \<forall>d. parse_rss_text_to_items_wrapped xp dp d (fst kv) = Inr (snd kv)) \<and>
     (case fst ?rc of
        Inl e \<Rightarrow> ?fresh = Inl e \<and> map_of c (snd call) = None
      | Inr v \<Rightarrow> \<forall>d. parse_rss_text_to_items_wrapped xp dp d (snd call) = Inr v)"
    by (rule memo_step
        [where P = "\<lambda>k v. \<forall>d. parse_rss_text_to_items_wrapped xp dp d k = Inr v",
         OF Cons.prems(1) fresh])
  from step have c2: "case fst ?rc of
        Inl e \<Rightarrow> ?fresh = Inl e \<and> map_of c (snd call) = None
      | Inr v \<Rightarrow> \<forall>d. parse_rss_text_to_items_wrapped xp dp d (snd call) = Inr v"
    by (rule conjunct2)
  have res: "fst ?rc = ?fresh"
  proof (cases "fst ?rc")
    case (Inl e)
    from c2 [unfolded Inl sum.case] have "?fresh = Inl e" by (rule conjunct1)
    with Inl show ?thesis by (simp only:)
  next
    case (Inr v)
    from c2 [unfolded Inr sum.case]
    have "parse_rss_text_to_items_wrapped xp dp (fst call) (snd call) = Inr v" by (rule spec)
    with Inr show ?thesis by (simp only:)
  qed
  from step have inv': "\<forall>kv\<in>set (snd ?rc).
        \<forall>d. parse_rss_text_to_items_wrapped xp dp d (fst kv) = Inr (snd kv)"
    by (rule conjunct1)
  have "run_calls xp dp (snd ?rc) rest =
      map (\<lambda>call. parse_rss_text_to_items_wrapped xp dp (fst call) (snd call)) rest"
    by (rule Cons.IH [OF inv' rest])
  with res show ?case by (simp only: run_calls.simps Let_def list.map)
qed

text \<open>
  Claim C9, as the code has it. Take any run of calls on a memo table that starts empty,
  in which the fresh parse of each text called does not depend on the date of the call
  (its items' dates are complete, so the date parser does not read the clock). Then each
  call, served from the table or not and whatever calls lie between, returns exactly
  what a fresh parse of its text returns at that moment.
\<close>

theorem memo_equals_fresh:
  assumes "\<forall>call\<in>set calls. \<forall>d. parse_rss_text_to_items_wrapped xp dp d (snd call) =
           parse_rss_text_to_items_wrapped xp dp (fst call) (snd call)"
  shows "run_calls xp dp [] calls =
     map (\<lambda>call. parse_rss_text_to_items_wrapped xp dp (fst call) (snd call)) calls"
  by (rule run_calls_fresh [OF _ assms]) simp

theorem memo_equals_fresh_witness:
  "(\<forall>d. parse_rss_text_to_items_wrapped xp_demo dp_demo d feed_two = Inr [job_a, job_b]) \<and>
   (\<forall>d. parse_rss_text_to_items_wrapped xp_demo dp_demo d feed_one = Inr [job_b]) \<and>
   run_calls xp_demo dp_demo [] [(day1, feed_two), (day1, feed_one), (day2, feed_two)] =
     [Inr [job_a, job_b], Inr [job_b], Inr [job_a, job_b]]"
proof -
  have h: "\<forall>call\<in>set [(day1, feed_two), (day1, feed_one), (day2, feed_two)].
      \<forall>d. parse_rss_text_to_items_wrapped xp_demo dp_demo d (snd call) =
          parse_rss_text_to_items_wrapped xp_demo dp_demo (fst call) (snd call)"
    by (simp add: wrapped_two wrapped_one)
  have r: "run_calls xp_demo dp_demo [] [(day1, feed_two), (day1, feed_one), (day2, feed_two)] =
      [Inr [job_a, job_b], Inr [job_b], Inr [job_a, job_b]]"
    unfolding memo_equals_fresh [OF h] by (simp add: wrapped_two wrapped_one)
  have "\<forall>d. parse_rss_text_to_items_wrapped xp_demo dp_demo d feed_two = Inr [job_a, job_b]"
    and "\<forall>d. parse_rss_text_to_items_wrapped xp_demo dp_demo d feed_one = Inr [job_b]"
    by (simp_all add: wrapped_two wrapped_one)
  with r show ?thesis by (intro conjI)
qed

theorem memo_serves_stale_date:
  "run_calls xp_demo dp_demo [] [(day1, feed_clock), (day2, feed_clock)] =
     [Inr [job_clock day1], Inr [job_clock day1]] \<and>
   parse_rss_text_to_items_wrapped xp_demo dp_demo day2 feed_clock = Inr [job_clock day2] \<and>
   posted_date (job_clock day1) = Some ''2025-11-03'' \<and>
   posted_date (job_clock day2) = Some ''2025-11-04''"
proof -
  have 1: "parse_rss_text_to_items xp_demo dp_demo [] day1 feed_clock =
      (Inr [job_clock day1], [(feed_clock, [job_clock day1])])"
    by (simp add: parse_rss_text_to_items_def wrapped_clock maxsize_def)
  have 2: "parse_rss_text_to_items xp_demo dp_demo [(feed_clock, [job_clock day1])] day2
      feed_clock = (Inr [job_clock day1], [(feed_clock, [job_clock day1])])"
    by (simp add: parse_rss_text_to_items_def)
  have 3: "posted_date (job_clock day1) = Some ''2025-11-03''"
    "posted_date (job_clock day2) = Some ''2025-11-04''"
    by (simp_all add: job_clock_def day1_def day2_def isoformat_def digit_def)
  show ?thesis
    by (simp add: 1 2 3 wrapped_clock Let_def)
qed

end
